theory Spec2Isabelle
  imports Complex_Main "HOL-Library.Sublist"
begin

section \<open>Numbers\<close>

text \<open>
  The script computes with JavaScript numbers. The four form fields hold integers
  (\<^verbatim>\<open>validateInput\<close> reads them with \<^verbatim>\<open>parseFloat\<close>, \<^verbatim>\<open>getFormData\<close> with
  \<^verbatim>\<open>parseInt\<close>, and the two agree on the numeral of an integer), so a request carries
  values of type \<^typ>\<open>int\<close>; quotients are modelled as exact rationals (\<^typ>\<open>rat\<close>).
  For the operands the form lets through (wattages up to 2000, at most 3659 seconds)
  every product is an integer far below \<open>2^53\<close>, a quotient with denominator at most
  2000 lies at least \<open>1/4000\<close> away from any half-integer it does not hit exactly, and
  IEEE division is correctly rounded and monotone, so \<^verbatim>\<open>Math.round\<close>,
  \<^verbatim>\<open>Math.floor\<close> and the comparisons below give the same integers and truth values on
  doubles as on the exact quotients. Where a quotient is itself stored (the field
  \<open>ratio\<close>), the model has the exact value and the script the nearest double.
\<close>

text \<open>\<^verbatim>\<open>Math.round(x)\<close>: the nearest integer, a tie going to the larger one.\<close>

definition Math_round :: "rat \<Rightarrow> int" where
  "Math_round x = \<lfloor>x + 1 / 2\<rfloor>"

text \<open>\<^verbatim>\<open>Math.floor(x)\<close>.\<close>

definition Math_floor :: "rat \<Rightarrow> int" where
  "Math_floor x = \<lfloor>x\<rfloor>"

text \<open>
  \<^verbatim>\<open>a % b\<close> on integers: the remainder of the division truncated towards zero, which
  has the sign of \<open>a\<close>. A zero divisor gives \<^verbatim>\<open>NaN\<close>; the script only divides by 60.
\<close>

definition js_rem :: "int \<Rightarrow> int \<Rightarrow> int" where
  "js_rem a b = sgn a * (\<bar>a\<bar> mod \<bar>b\<bar>)"

text \<open>
  Rounding with ties away from zero, as the specification words it; it is compared with
  \<^const>\<open>Math_round\<close> below.
\<close>

definition round_half_away_from_zero :: "rat \<Rightarrow> int" where
  "round_half_away_from_zero x = (if 0 \<le> x then \<lfloor>x + 1 / 2\<rfloor> else - \<lfloor>- x + 1 / 2\<rfloor>)"

section \<open>The conversion\<close>

text \<open>The object built by \<^verbatim>\<open>getFormData\<close>.\<close>

record formData =
  originalWattage :: int
  originalMinutes :: int
  originalSeconds :: int
  targetWattage :: int

text \<open>The object returned by \<^verbatim>\<open>calculateConversion\<close>.\<close>

record conversion =
  originalTotalSeconds :: int
  newTotalSeconds :: int
  newMinutes :: int
  newSeconds :: int
  ratio :: rat

text \<open>
  \<^verbatim>\<open>calculateConversion(data)\<close>; \<open>ots\<close>, \<open>nts\<close>, \<open>nm\<close> and \<open>ns\<close> are its constants
  \<^verbatim>\<open>originalTotalSeconds\<close>, \<^verbatim>\<open>newTotalSeconds\<close>, \<^verbatim>\<open>newMinutes\<close> and
  \<^verbatim>\<open>newSeconds\<close>. Dividing by a zero target wattage yields \<^verbatim>\<open>Infinity\<close> or
  \<^verbatim>\<open>NaN\<close> in every derived field; that outcome is \<open>None\<close> here.
\<close>

definition calculateConversion :: "formData \<Rightarrow> conversion option" where
  "calculateConversion data =
     (if targetWattage data = 0 then None
      else
        let ots = originalMinutes data * 60 + originalSeconds data;
            nts = Math_round (of_int (ots * originalWattage data) / of_int (targetWattage data));
            nm = Math_floor (of_int nts / 60);
            ns = js_rem nts 60
        in Some \<lparr>originalTotalSeconds = ots, newTotalSeconds = nts, newMinutes = nm,
                 newSeconds = ns,
                 ratio = of_int (originalWattage data) / of_int (targetWattage data)\<rparr>)"

text \<open>\<^verbatim>\<open>Utils.isValidWattage(wattage)\<close>.\<close>

definition isValidWattage :: "int \<Rightarrow> bool" where
  "isValidWattage wattage = (wattage \<ge> 100 \<and> wattage \<le> 2000)"

text \<open>The object returned by \<^verbatim>\<open>Utils.getPowerLevelRecommendation\<close>.\<close>

record recommendation =
  powerLevel :: string
  reason :: string

text \<open>
  \<^verbatim>\<open>Utils.getPowerLevelRecommendation(originalWattage, targetWattage)\<close>. The two
  functions below are the tests \<^verbatim>\<open>ratio > c\<close> and \<^verbatim>\<open>ratio < c\<close> on
  \<^verbatim>\<open>ratio = originalWattage / targetWattage\<close>. With a zero target wattage the
  quotient is \<^verbatim>\<open>Infinity\<close>, \<^verbatim>\<open>-Infinity\<close> or \<^verbatim>\<open>NaN\<close>, and the comparisons
  are decided as JavaScript decides them. The tests are made on the exact quotient, where
  the script makes them on the double. The literal \<^verbatim>\<open>1.5\<close> is a double, and the
  literal \<^verbatim>\<open>0.7\<close> is the double nearest to \<open>7/10\<close>, which is also the correctly
  rounded quotient of two integers whose exact quotient is \<open>7/10\<close>; so the two tests
  agree as long as every other quotient stays clear of the thresholds, which holds for
  wattages up to 2000 and fails only for operands of about \<open>2^49\<close> and more. The
  statements about these tests are therefore made for wattages up to 2000.
\<close>

definition ratio_gt :: "int \<Rightarrow> int \<Rightarrow> rat \<Rightarrow> bool" where
  "ratio_gt a b c = (if b = 0 then 0 < a else of_int a / of_int b > c)"

definition ratio_lt :: "int \<Rightarrow> int \<Rightarrow> rat \<Rightarrow> bool" where
  "ratio_lt a b c = (if b = 0 then a < 0 else of_int a / of_int b < c)"

definition getPowerLevelRecommendation :: "int \<Rightarrow> int \<Rightarrow> recommendation" where
  "getPowerLevelRecommendation ow tw =
     (if ratio_gt ow tw (15 / 10) then
        \<lparr>powerLevel = ''70-80%'',
         reason = ''Your microwave is much more powerful. Consider using a lower power level.''\<rparr>
      else if ratio_lt ow tw (7 / 10) then
        \<lparr>powerLevel = ''100%'',
         reason = ''Your microwave is less powerful. Use full power and check frequently.''\<rparr>
      else
        \<lparr>powerLevel = ''100%'',
         reason = ''Your microwave power is similar to the recipe. Use normal power.''\<rparr>)"

section \<open>Strings\<close>

text \<open>
  A number inside a template literal: the decimal numeral of an integer. \<open>digit_char\<close>
  is only applied to a digit value below 10.
\<close>

definition digit_char :: "nat \<Rightarrow> char" where
  "digit_char d = ''0123456789'' ! d"

function digits :: "nat \<Rightarrow> string" where
  "digits n = (if n < 10 then [digit_char n] else digits (n div 10) @ [digit_char (n mod 10)])"
  by pat_completeness auto
termination
  by (relation "measure (\<lambda>n. n)") auto

declare digits.simps [simp del]

definition toString :: "int \<Rightarrow> string" where
  "toString n = (if n < 0 then CHR ''-'' # digits (nat (- n)) else digits (nat n))"

text \<open>\<^verbatim>\<open>String.prototype.trim\<close> on the ASCII strings the script builds.\<close>

definition is_whitespace :: "char \<Rightarrow> bool" where
  "is_whitespace c = (c \<in> set [CHR '' '', CHR 0x09, CHR 0x0A, CHR 0x0B, CHR 0x0C, CHR 0x0D])"

definition trim :: "string \<Rightarrow> string" where
  "trim s = rev (dropWhile is_whitespace (rev (dropWhile is_whitespace s)))"

text \<open>\<^verbatim>\<open>formatTime(minutes, seconds)\<close>.\<close>

definition formatTime :: "int \<Rightarrow> int \<Rightarrow> string" where
  "formatTime minutes seconds =
     (let timeStr = [];
          timeStr = (if minutes > 0 then timeStr @ toString minutes @ ''m '' else timeStr);
          timeStr = (if seconds > 0 \<or> minutes = 0 then timeStr @ toString seconds @ ''s''
                     else timeStr)
      in trim timeStr)"

section \<open>The page\<close>

text \<open>
  The four number inputs of \<^verbatim>\<open>index.html\<close>, in document order, and the elements that
  carry validation state: the three \<^verbatim>\<open>.input-group\<close> blocks and the \<^verbatim>\<open>.time-row\<close>
  inside the second one.
\<close>

datatype input_id = OriginalWattage | OriginalMinutes | OriginalSeconds | TargetWattage

datatype group_id = RecipeGroup | TimeGroup | YourGroup | TimeRow

text \<open>
  The texts passed to \<^verbatim>\<open>showError\<close>:
  \<^item> \<open>FieldRequired\<close>: ``This field is required'';
  \<^item> \<open>WattageAtLeast\<close>: ``Wattage must be at least 100 watts'';
  \<^item> \<open>WattageAtMost\<close>: ``Wattage must be 2000 watts or less'';
  \<^item> \<open>SecondsBetween\<close>: ``Seconds must be between 0-59'';
  \<^item> \<open>MinutesReasonable\<close>: ``Minutes should be reasonable (\<le>60)'';
  \<^item> \<open>SpecifyTime\<close>: ``Please specify at least some cooking time''.
\<close>

datatype message =
  FieldRequired | WattageAtLeast | WattageAtMost | SecondsBetween | MinutesReasonable
  | SpecifyTime

text \<open>
  The state of the document that the script reads and writes. The value of a number input
  is \<open>None\<close> when the field is empty (the empty string, which \<^verbatim>\<open>parseFloat\<close> and
  \<^verbatim>\<open>parseInt\<close> turn into \<^verbatim>\<open>NaN\<close>) and \<open>Some n\<close> when it holds the numeral of the
  integer \<open>n\<close>. \<open>errorMessage g\<close> is the text of the \<^verbatim>\<open>.error-message\<close> element that
  was appended to \<open>g\<close>, if there is one.
\<close>

record page =
  inputs :: "input_id \<Rightarrow> int option"
  errorClass :: "group_id \<Rightarrow> bool"
  successClass :: "group_id \<Rightarrow> bool"
  errorMessage :: "group_id \<Rightarrow> message option"
  resultTime :: string
  resultExplanation :: string
  resultHidden :: bool

text \<open>The document as \<^verbatim>\<open>index.html\<close> delivers it.\<close>

definition initial_page :: page where
  "initial_page =
     \<lparr>inputs = (\<lambda>i. case i of OriginalWattage \<Rightarrow> None | OriginalMinutes \<Rightarrow> Some 0
                  | OriginalSeconds \<Rightarrow> Some 0 | TargetWattage \<Rightarrow> Some 700),
      errorClass = (\<lambda>g. False), successClass = (\<lambda>g. False), errorMessage = (\<lambda>g. None),
      resultTime = [], resultExplanation = [], resultHidden = True\<rparr>"

text \<open>\<^verbatim>\<open>form.querySelectorAll('input[type="number"]')\<close>.\<close>

definition number_inputs :: "input_id list" where
  "number_inputs = [OriginalWattage, OriginalMinutes, OriginalSeconds, TargetWattage]"

text \<open>\<^verbatim>\<open>input.hasAttribute('required')\<close>: only the two wattage inputs are required.\<close>

fun required :: "input_id \<Rightarrow> bool" where
  "required OriginalWattage = True"
| "required TargetWattage = True"
| "required OriginalMinutes = False"
| "required OriginalSeconds = False"

text \<open>\<^verbatim>\<open>input.id.includes('Wattage')\<close>.\<close>

fun id_includes_Wattage :: "input_id \<Rightarrow> bool" where
  "id_includes_Wattage OriginalWattage = True"
| "id_includes_Wattage TargetWattage = True"
| "id_includes_Wattage OriginalMinutes = False"
| "id_includes_Wattage OriginalSeconds = False"

text \<open>
  \<^verbatim>\<open>input.closest('.input-group') || input.closest('.form-group')\<close>: the minutes and the
  seconds input share one group.
\<close>

fun fieldGroup :: "input_id \<Rightarrow> group_id" where
  "fieldGroup OriginalWattage = RecipeGroup"
| "fieldGroup OriginalMinutes = TimeGroup"
| "fieldGroup OriginalSeconds = TimeGroup"
| "fieldGroup TargetWattage = YourGroup"

text \<open>
  \<^verbatim>\<open>fieldGroup.querySelector('.error-message')\<close>, as the group that owns the element
  found. The time row lies inside the time group and before the children appended to that
  group, so a message of the row is found first from the group.
\<close>

definition querySelector_errorMessage :: "page \<Rightarrow> group_id \<Rightarrow> group_id option" where
  "querySelector_errorMessage p g =
     (if g = TimeGroup \<and> errorMessage p TimeRow \<noteq> None then Some TimeRow
      else if errorMessage p g \<noteq> None then Some g
      else None)"

text \<open>The text a group displays: that of the element the query finds.\<close>

definition shown :: "page \<Rightarrow> group_id \<Rightarrow> message option" where
  "shown p g = (case querySelector_errorMessage p g of None \<Rightarrow> None | Some h \<Rightarrow> errorMessage p h)"

text \<open>\<^verbatim>\<open>showError(fieldGroup, message)\<close>.\<close>

definition showError :: "group_id \<Rightarrow> message \<Rightarrow> page \<Rightarrow> page" where
  "showError g m p =
     (let p1 = p\<lparr>errorClass := (errorClass p)(g := True),
                 successClass := (successClass p)(g := False)\<rparr>
      in case querySelector_errorMessage p1 g of
           None \<Rightarrow> p1\<lparr>errorMessage := (errorMessage p1)(g := Some m)\<rparr>
         | Some h \<Rightarrow> p1\<lparr>errorMessage := (errorMessage p1)(h := Some m)\<rparr>)"

text \<open>\<^verbatim>\<open>showSuccess(fieldGroup)\<close>.\<close>

definition showSuccess :: "group_id \<Rightarrow> page \<Rightarrow> page" where
  "showSuccess g p =
     (let p1 = p\<lparr>successClass := (successClass p)(g := True),
                 errorClass := (errorClass p)(g := False)\<rparr>
      in case querySelector_errorMessage p1 g of
           None \<Rightarrow> p1
         | Some h \<Rightarrow> p1\<lparr>errorMessage := (errorMessage p1)(h := None)\<rparr>)"

text \<open>\<^verbatim>\<open>clearErrors(input)\<close>.\<close>

definition clearErrors :: "input_id \<Rightarrow> page \<Rightarrow> page" where
  "clearErrors i p =
     (let g = fieldGroup i;
          p1 = p\<lparr>errorClass := (errorClass p)(g := False),
                 successClass := (successClass p)(g := False)\<rparr>
      in case querySelector_errorMessage p1 g of
           None \<Rightarrow> p1
         | Some h \<Rightarrow> p1\<lparr>errorMessage := (errorMessage p1)(h := None)\<rparr>)"

text \<open>Comparisons of a parsed field with a constant; every comparison with \<^verbatim>\<open>NaN\<close> is false.\<close>

definition num_le :: "int option \<Rightarrow> int \<Rightarrow> bool" where
  "num_le v c = (case v of None \<Rightarrow> False | Some n \<Rightarrow> n \<le> c)"

definition num_lt :: "int option \<Rightarrow> int \<Rightarrow> bool" where
  "num_lt v c = (case v of None \<Rightarrow> False | Some n \<Rightarrow> n < c)"

definition num_gt :: "int option \<Rightarrow> int \<Rightarrow> bool" where
  "num_gt v c = (case v of None \<Rightarrow> False | Some n \<Rightarrow> n > c)"

text \<open>\<^verbatim>\<open>parseInt(value) || 0\<close>: \<^verbatim>\<open>NaN\<close> and \<open>0\<close> are both falsy.\<close>

definition parseInt_or_0 :: "int option \<Rightarrow> int" where
  "parseInt_or_0 v = (case v of None \<Rightarrow> 0 | Some n \<Rightarrow> if n = 0 then 0 else n)"

section \<open>Validation\<close>

text \<open>
  \<^verbatim>\<open>validateInput(input)\<close>: the returned boolean and the document it leaves.
  \<^verbatim>\<open>!input.value\<close> holds exactly for the empty field.
\<close>

definition validateInput :: "input_id \<Rightarrow> page \<Rightarrow> bool \<times> page" where
  "validateInput i p =
     (let v = inputs p i;
          fieldGroup = fieldGroup i;
          p = clearErrors i p
      in
        if required i \<and> (v = None \<or> num_le v 0) then
          (False, showError fieldGroup FieldRequired p)
        else if id_includes_Wattage i \<and> num_lt v 100 then
          (False, showError fieldGroup WattageAtLeast p)
        else if id_includes_Wattage i \<and> num_gt v 2000 then
          (False, showError fieldGroup WattageAtMost p)
        else if i = OriginalSeconds \<and> num_gt v 59 then
          (False, showError fieldGroup SecondsBetween p)
        else if i = OriginalMinutes \<and> num_gt v 60 then
          (False, showError fieldGroup MinutesReasonable p)
        else (True, showSuccess fieldGroup p))"

text \<open>
  \<^verbatim>\<open>validateForm()\<close>: every input is validated in document order, also after a
  failure, and then the time is required to be non-zero.
\<close>

definition validateForm :: "page \<Rightarrow> bool \<times> page" where
  "validateForm p =
     (let (isValid, p) =
            fold (\<lambda>i (isValid, p). let (ok, p) = validateInput i p
                                   in (if \<not> ok then False else isValid, p))
                 number_inputs (True, p);
          minutes = parseInt_or_0 (inputs p OriginalMinutes);
          seconds = parseInt_or_0 (inputs p OriginalSeconds)
      in if minutes = 0 \<and> seconds = 0 then (False, showError TimeRow SpecifyTime p)
         else (isValid, p))"

text \<open>
  \<^verbatim>\<open>getFormData()\<close>. A wattage field that is empty parses to \<^verbatim>\<open>NaN\<close>; that outcome
  is \<open>None\<close> here, and it does not arise after a successful \<^const>\<open>validateForm\<close>.
\<close>

definition getFormData :: "page \<Rightarrow> formData option" where
  "getFormData p =
     (case (inputs p OriginalWattage, inputs p TargetWattage) of
        (Some ow, Some tw) \<Rightarrow>
          Some \<lparr>originalWattage = ow,
                originalMinutes = parseInt_or_0 (inputs p OriginalMinutes),
                originalSeconds = parseInt_or_0 (inputs p OriginalSeconds),
                targetWattage = tw\<rparr>
      | _ \<Rightarrow> None)"

text \<open>
  \<^verbatim>\<open>displayResult(result, formData)\<close>: the two texts written into the result section,
  which is then shown. Scrolling and the console line of \<^verbatim>\<open>trackConversion\<close> are not
  part of the state.
\<close>

definition displayResult :: "conversion \<Rightarrow> formData \<Rightarrow> page \<Rightarrow> page" where
  "displayResult result formData p =
     (let timeString = [];
          timeString = (if newMinutes result > 0
                        then timeString @ toString (newMinutes result) @ ''m ''
                        else timeString);
          timeString = timeString @ toString (newSeconds result) @ ''s'';
          originalTimeStr = formatTime (originalMinutes formData) (originalSeconds formData);
          explanation = ''Cook for '' @ timeString @ '' instead of '' @ originalTimeStr
      in p\<lparr>resultTime := timeString, resultExplanation := explanation,
            resultHidden := False\<rparr>)"

text \<open>
  \<^verbatim>\<open>handleSubmit(e)\<close>. The two \<open>None\<close> branches stand for a conversion on \<^verbatim>\<open>NaN\<close>
  or by a zero wattage; \<open>validateForm\<close> has ruled both out when they are reached.
\<close>

definition handleSubmit :: "page \<Rightarrow> page" where
  "handleSubmit p =
     (let (ok, p) = validateForm p
      in if \<not> ok then p
         else case getFormData p of
                None \<Rightarrow> p
              | Some formData \<Rightarrow>
                  (case calculateConversion formData of
                     None \<Rightarrow> p
                   | Some result \<Rightarrow> displayResult result formData p))"

text \<open>
  The \<^verbatim>\<open>input\<close> listeners of \<^verbatim>\<open>addInputFormatting\<close>, on the value the user has just
  entered: both tests read the value parsed before either assignment.
\<close>

definition formatWattage :: "int option \<Rightarrow> int option" where
  "formatWattage v =
     (let v1 = (if num_gt v 2000 then Some 2000 else v)
      in if num_lt v 0 then None else v1)"

definition formatSeconds :: "int option \<Rightarrow> int option" where
  "formatSeconds v =
     (let v1 = (if num_gt v 59 then Some 59 else v)
      in if num_lt v 0 then Some 0 else v1)"

definition formatMinutes :: "int option \<Rightarrow> int option" where
  "formatMinutes v =
     (let v1 = (if num_gt v 60 then Some 60 else v)
      in if num_lt v 0 then Some 0 else v1)"

fun formatInput :: "input_id \<Rightarrow> int option \<Rightarrow> int option" where
  "formatInput OriginalWattage v = formatWattage v"
| "formatInput TargetWattage v = formatWattage v"
| "formatInput OriginalSeconds v = formatSeconds v"
| "formatInput OriginalMinutes v = formatMinutes v"

text \<open>
  The user edits input \<open>i\<close> to hold \<open>v\<close>; the \<^verbatim>\<open>input\<close> listeners run in the order they
  were added: \<open>clearErrors\<close> from \<^verbatim>\<open>addInputValidation\<close>, then the formatting.
\<close>

definition onInput :: "input_id \<Rightarrow> int option \<Rightarrow> page \<Rightarrow> page" where
  "onInput i v p =
     (let p = p\<lparr>inputs := (inputs p)(i := v)\<rparr>;
          p = clearErrors i p
      in p\<lparr>inputs := (inputs p)(i := formatInput i (inputs p i))\<rparr>)"

section \<open>The vocabulary of the specification\<close>

text \<open>
  The ranges of a \<open>ConversionRequest\<close>: wattages by \<^const>\<open>isValidWattage\<close>, minutes and
  seconds by the \<^verbatim>\<open>min\<close> and \<^verbatim>\<open>max\<close> attributes of their inputs, and a time that is
  not zero.
\<close>

definition valid_request :: "formData \<Rightarrow> bool" where
  "valid_request d =
     (isValidWattage (originalWattage d) \<and> isValidWattage (targetWattage d)
      \<and> 0 \<le> originalMinutes d \<and> originalMinutes d \<le> 60
      \<and> 0 \<le> originalSeconds d \<and> originalSeconds d \<le> 59
      \<and> \<not> (originalMinutes d = 0 \<and> originalSeconds d = 0))"

text \<open>The document whose four inputs hold the fields of a request.\<close>

definition page_of :: "formData \<Rightarrow> page \<Rightarrow> page" where
  "page_of d p =
     p\<lparr>inputs := (\<lambda>i. case i of OriginalWattage \<Rightarrow> Some (originalWattage d)
                        | OriginalMinutes \<Rightarrow> Some (originalMinutes d)
                        | OriginalSeconds \<Rightarrow> Some (originalSeconds d)
                        | TargetWattage \<Rightarrow> Some (targetWattage d))\<rparr>"

text \<open>The error kinds of the specification, and the kind each message of the script falls under.\<close>

datatype error_kind = MissingField | OutOfRange | InvalidTime

fun kind_of :: "message \<Rightarrow> error_kind" where
  "kind_of FieldRequired = MissingField"
| "kind_of WattageAtLeast = OutOfRange"
| "kind_of WattageAtMost = OutOfRange"
| "kind_of SecondsBetween = InvalidTime"
| "kind_of MinutesReasonable = InvalidTime"
| "kind_of SpecifyTime = InvalidTime"

text \<open>The message that validating input \<open>i\<close> leaves on display when it returns false.\<close>

definition rejection :: "input_id \<Rightarrow> page \<Rightarrow> message option" where
  "rejection i p =
     (case validateInput i p of
        (True, _) \<Rightarrow> None
      | (False, p') \<Rightarrow> shown p' (fieldGroup i))"

text \<open>
  The messages \<^const>\<open>validateForm\<close> reports in one run: those of the four inputs in
  document order, then the message on the time row.
\<close>

definition reported :: "page \<Rightarrow> message list" where
  "reported p =
     List.map_filter (\<lambda>i. rejection i p) number_inputs
     @ (case errorMessage (snd (validateForm p)) TimeRow of None \<Rightarrow> [] | Some m \<Rightarrow> [m])"

text \<open>Validation fails with kind \<open>k\<close>.\<close>

definition fails_with :: "page \<Rightarrow> error_kind \<Rightarrow> bool" where
  "fails_with p k = (\<not> fst (validateForm p) \<and> k \<in> kind_of ` set (reported p))"

text \<open>Rounding to two decimal places, as the specification words it for the ratio.\<close>

definition round_to_2_decimals :: "rat \<Rightarrow> rat" where
  "round_to_2_decimals x = of_int (Math_round (x * 100)) / 100"

section \<open>Sample requests\<close>

text \<open>The documented example: two minutes at 1000 W, for a 700 W oven.\<close>

definition documented_example :: formData where
  "documented_example =
     \<lparr>originalWattage = 1000, originalMinutes = 2, originalSeconds = 0, targetWattage = 700\<rparr>"

text \<open>One minute at 1000 W, for a 600 W oven.\<close>

definition one_minute_example :: formData where
  "one_minute_example =
     \<lparr>originalWattage = 1000, originalMinutes = 1, originalSeconds = 0, targetWattage = 600\<rparr>"

text \<open>The shortest time at the lowest wattage, for the highest wattage.\<close>

definition one_second_example :: formData where
  "one_second_example =
     \<lparr>originalWattage = 100, originalMinutes = 0, originalSeconds = 1, targetWattage = 2000\<rparr>"

text \<open>One second at 100 W, for a 1000 W oven.\<close>

definition one_second_at_1000 :: formData where
  "one_second_at_1000 =
     \<lparr>originalWattage = 100, originalMinutes = 0, originalSeconds = 1, targetWattage = 1000\<rparr>"

text \<open>A request whose seconds lie below the range.\<close>

definition negative_seconds_example :: formData where
  "negative_seconds_example =
     \<lparr>originalWattage = 1000, originalMinutes = 1, originalSeconds = - 1, targetWattage = 700\<rparr>"

text \<open>A request whose original wattage is zero.\<close>

definition zero_wattage_example :: formData where
  "zero_wattage_example =
     \<lparr>originalWattage = 0, originalMinutes = 1, originalSeconds = 0, targetWattage = 700\<rparr>"

text \<open>Thirty seconds, for an oven of the recipe's wattage.\<close>

definition thirty_seconds_example :: formData where
  "thirty_seconds_example =
     \<lparr>originalWattage = 800, originalMinutes = 0, originalSeconds = 30, targetWattage = 800\<rparr>"

section \<open>Arithmetic of the conversion\<close>

lemma Math_round_quot:
  assumes "0 < b"
  shows "Math_round (of_int a / of_int b) = (2 * a + b) div (2 * b)"
proof -
  have "(of_int a / of_int b + 1 / 2 :: rat) = of_int (2 * a + b) / of_int (2 * b)"
    using assms by (simp add: field_simps)
  then show ?thesis
    unfolding Math_round_def by (simp only: floor_divide_of_int_eq)
qed

lemma Math_floor_60: "Math_floor (of_int n / 60) = n div 60"
proof -
  have "(of_int n / 60 :: rat) = of_int n / of_int 60"
    by simp
  then show ?thesis
    unfolding Math_floor_def by (simp only: floor_divide_of_int_eq)
qed

text \<open>On a positive target wattage the conversion is integer arithmetic.\<close>

lemma calculateConversion_int:
  assumes "0 < targetWattage d"
  shows "calculateConversion d =
    (let ots = originalMinutes d * 60 + originalSeconds d;
         nts = (2 * (ots * originalWattage d) + targetWattage d) div (2 * targetWattage d)
     in Some \<lparr>originalTotalSeconds = ots, newTotalSeconds = nts, newMinutes = nts div 60,
        newSeconds = js_rem nts 60,
        ratio = of_int (originalWattage d) / of_int (targetWattage d)\<rparr>)"
proof -
  have "targetWattage d \<noteq> 0"
    using assms by simp
  then show ?thesis
    unfolding calculateConversion_def Let_def
    by (simp only: Math_round_quot [OF assms] Math_floor_60 if_False)
qed

lemma js_rem_nonneg: "0 \<le> a \<Longrightarrow> js_rem a 60 = a mod 60"
  by (simp add: js_rem_def sgn_if)

lemma round_half_away_nonneg: "0 \<le> x \<Longrightarrow> round_half_away_from_zero x = Math_round x"
  by (simp add: round_half_away_from_zero_def Math_round_def)

lemma Math_round_nonneg: "0 \<le> x \<Longrightarrow> 0 \<le> Math_round x"
  by (simp add: Math_round_def)

lemma Math_round_mono: "x \<le> y \<Longrightarrow> Math_round x \<le> Math_round y"
  by (simp add: Math_round_def floor_mono)

lemma Math_round_of_int: "Math_round (of_int n) = n"
  unfolding Math_round_def by linarith

text \<open>Off the non-negative numbers the two roundings part: \<open>-3/2\<close> goes to \<open>-1\<close> and to \<open>-2\<close>.\<close>

lemma roundings_differ_below_zero:
  "Math_round (- 3 / 2) = - 1 \<and> round_half_away_from_zero (- 3 / 2) = - 2"
  by code_simp

lemma valid_request_bounds:
  assumes "valid_request d"
  shows "100 \<le> originalWattage d" "originalWattage d \<le> 2000"
    "100 \<le> targetWattage d" "targetWattage d \<le> 2000"
    "0 \<le> originalMinutes d" "originalMinutes d \<le> 60"
    "0 \<le> originalSeconds d" "originalSeconds d \<le> 59"
    "0 < originalMinutes d * 60 + originalSeconds d"
  using assms by (auto simp: valid_request_def isValidWattage_def)

lemma valid_documented_example: "valid_request documented_example"
  by (simp add: valid_request_def isValidWattage_def documented_example_def)

lemma valid_one_minute_example: "valid_request one_minute_example"
  by (simp add: valid_request_def isValidWattage_def one_minute_example_def)

lemma valid_one_second_example: "valid_request one_second_example"
  by (simp add: valid_request_def isValidWattage_def one_second_example_def)

lemma valid_one_second_at_1000: "valid_request one_second_at_1000"
  by (simp add: valid_request_def isValidWattage_def one_second_at_1000_def)

lemma quotient_nonneg:
  assumes "valid_request d"
  shows "(0::rat) \<le> of_int ((originalMinutes d * 60 + originalSeconds d) * originalWattage d)
           / of_int (targetWattage d)"
proof -
  have "0 \<le> (originalMinutes d * 60 + originalSeconds d) * originalWattage d"
    using valid_request_bounds [OF assms] by simp
  then have "(0::rat) \<le> of_int ((originalMinutes d * 60 + originalSeconds d) * originalWattage d)"
    by (simp only: of_int_0_le_iff)
  moreover have "(0::rat) < of_int (targetWattage d)"
    using valid_request_bounds(3) [OF assms] by simp
  ultimately show ?thesis
    by (rule divide_nonneg_pos)
qed

text \<open>
  The quotient of an integer by a denominator up to 2000 either is the threshold or stays
  clear of it by far more than the relative error \<open>2^-53\<close> of a correctly rounded
  division: this is why the comparisons on doubles and on exact quotients agree there.
\<close>

lemma gap_three_halves:
  assumes "0 < b" and "b \<le> 2000" and "(of_int a :: rat) / of_int b \<noteq> 3 / 2"
  shows "1 / 4000 \<le> \<bar>(of_int a :: rat) / of_int b - 3 / 2\<bar>"
proof -
  have b: "(0::rat) < of_int b"
    using assms(1) by simp
  have e: "(of_int a :: rat) / of_int b - 3 / 2 = of_int (2 * a - 3 * b) / of_int (2 * b)"
    using b by (simp add: field_simps)
  have "2 * a - 3 * b \<noteq> 0"
  proof
    assume "2 * a - 3 * b = 0"
    then have "(of_int (2 * a - 3 * b) :: rat) / of_int (2 * b) = 0"
      by (simp only: of_int_0 div_0)
    then have "(of_int a :: rat) / of_int b - 3 / 2 = 0"
      by (simp only: e)
    then have "(of_int a :: rat) / of_int b = 3 / 2"
      by (simp only: right_minus_eq)
    then show False
      using assms(3) by (simp only:)
  qed
  then have "1 \<le> \<bar>2 * a - 3 * b\<bar>"
    by simp
  then have n: "(1::rat) \<le> \<bar>of_int (2 * a - 3 * b)\<bar>"
    by (metis of_int_1_le_iff of_int_abs)
  have d: "(0::rat) < of_int (2 * b)" "(of_int (2 * b) :: rat) \<le> 4000"
    using assms(1,2) by simp_all
  have "(1::rat) / 4000 \<le> 1 / of_int (2 * b)"
    using d by (simp add: field_simps)
  also have "\<dots> \<le> \<bar>of_int (2 * a - 3 * b)\<bar> / of_int (2 * b)"
    using n d(1) by (simp add: divide_right_mono)
  also have "\<dots> = \<bar>(of_int (2 * a - 3 * b) :: rat) / of_int (2 * b)\<bar>"
    using d(1) by (simp add: abs_divide del: of_int_mult of_int_diff)
  finally show ?thesis
    using e by simp
qed

lemma gap_seven_tenths:
  assumes "0 < b" and "b \<le> 2000" and "(of_int a :: rat) / of_int b \<noteq> 7 / 10"
  shows "1 / 20000 \<le> \<bar>(of_int a :: rat) / of_int b - 7 / 10\<bar>"
proof -
  have b: "(0::rat) < of_int b"
    using assms(1) by simp
  have e: "(of_int a :: rat) / of_int b - 7 / 10 = of_int (10 * a - 7 * b) / of_int (10 * b)"
    using b by (simp add: field_simps)
  have "10 * a - 7 * b \<noteq> 0"
  proof
    assume "10 * a - 7 * b = 0"
    then have "(of_int (10 * a - 7 * b) :: rat) / of_int (10 * b) = 0"
      by (simp only: of_int_0 div_0)
    then have "(of_int a :: rat) / of_int b - 7 / 10 = 0"
      by (simp only: e)
    then have "(of_int a :: rat) / of_int b = 7 / 10"
      by (simp only: right_minus_eq)
    then show False
      using assms(3) by (simp only:)
  qed
  then have "1 \<le> \<bar>10 * a - 7 * b\<bar>"
    by simp
  then have n: "(1::rat) \<le> \<bar>of_int (10 * a - 7 * b)\<bar>"
    by (metis of_int_1_le_iff of_int_abs)
  have d: "(0::rat) < of_int (10 * b)" "(of_int (10 * b) :: rat) \<le> 20000"
    using assms(1,2) by simp_all
  have "(1::rat) / 20000 \<le> 1 / of_int (10 * b)"
    using d by (simp add: field_simps)
  also have "\<dots> \<le> \<bar>of_int (10 * a - 7 * b)\<bar> / of_int (10 * b)"
    using n d(1) by (simp add: divide_right_mono)
  also have "\<dots> = \<bar>(of_int (10 * a - 7 * b) :: rat) / of_int (10 * b)\<bar>"
    using d(1) by (simp add: abs_divide del: of_int_mult of_int_diff)
  finally show ?thesis
    using e by simp
qed

section \<open>The conversion formula\<close>

text \<open>
  Claim C1. For a request within the ranges, \<open>calculateConversion\<close> returns a result whose
  \<open>originalTotalSeconds\<close> is minutes times 60 plus seconds, whose \<open>newTotalSeconds\<close> is
  that total times the original wattage over the target wattage, rounded with halves away
  from zero, whose \<open>newMinutes\<close> is the floor of \<open>newTotalSeconds / 60\<close> and whose
  \<open>newSeconds\<close> is \<open>newTotalSeconds mod 60\<close>.
\<close>

theorem convert_computes:
  assumes "valid_request d"
  shows "\<exists>r. calculateConversion d = Some r
     \<and> originalTotalSeconds r = originalMinutes d * 60 + originalSeconds d
     \<and> newTotalSeconds r = round_half_away_from_zero
          (of_int (originalTotalSeconds r * originalWattage d) / of_int (targetWattage d))
     \<and> newMinutes r = \<lfloor>(of_int (newTotalSeconds r) :: rat) / 60\<rfloor>
     \<and> newSeconds r = newTotalSeconds r mod 60"
proof -
  let ?ots = "originalMinutes d * 60 + originalSeconds d"
  let ?q = "(of_int (?ots * originalWattage d) :: rat) / of_int (targetWattage d)"
  have tw: "0 < targetWattage d"
    using valid_request_bounds(3) [OF assms] by simp
  have q: "0 \<le> ?q"
    by (rule quotient_nonneg [OF assms])
  have nn: "0 \<le> Math_round ?q"
    by (rule Math_round_nonneg [OF q])
  show ?thesis
    using tw q nn
    by (simp add: calculateConversion_def Let_def round_half_away_nonneg js_rem_nonneg
        Math_floor_def del: of_int_mult of_int_add)
qed

theorem convert_computes_witness:
  "valid_request documented_example
   \<and> (\<exists>r. calculateConversion documented_example = Some r
        \<and> originalTotalSeconds r = 120 \<and> newTotalSeconds r = 171
        \<and> newMinutes r = 2 \<and> newSeconds r = 51)"
proof -
  obtain r where r: "calculateConversion documented_example = Some r"
      "originalTotalSeconds r = originalMinutes documented_example * 60
         + originalSeconds documented_example"
      "newTotalSeconds r = round_half_away_from_zero
          (of_int (originalTotalSeconds r * originalWattage documented_example)
            / of_int (targetWattage documented_example))"
      "newMinutes r = \<lfloor>(of_int (newTotalSeconds r) :: rat) / 60\<rfloor>"
      "newSeconds r = newTotalSeconds r mod 60"
    using convert_computes [OF valid_documented_example] by blast
  have ots: "originalTotalSeconds r = 120"
    using r(2) by (simp add: documented_example_def)
  have "round_half_away_from_zero (of_int (120 * 1000) / of_int 700) = 171"
    by code_simp
  then have nts: "newTotalSeconds r = 171"
    using r(3) ots by (simp add: documented_example_def)
  have "\<lfloor>(of_int 171 :: rat) / 60\<rfloor> = 2"
    by code_simp
  then have nm: "newMinutes r = 2"
    using r(4) nts by simp
  have ns: "newSeconds r = 51"
    using r(5) nts by simp
  show ?thesis
    using valid_documented_example r(1) ots nts nm ns by simp
qed

section \<open>Monotonicity in the target wattage\<close>

text \<open>
  Claim C3, as the code has it. With the original wattage and the time fixed, a higher
  target wattage within the range never gives a longer converted time. The decrease is not
  strict, since the result is rounded to whole seconds.
\<close>

theorem higher_target_never_longer:
  assumes "valid_request d" and "isValidWattage tw'" and "targetWattage d < tw'"
  shows "\<exists>r r'. calculateConversion d = Some r
      \<and> calculateConversion (d\<lparr>targetWattage := tw'\<rparr>) = Some r'
      \<and> newTotalSeconds r' \<le> newTotalSeconds r"
proof -
  let ?a = "(of_int ((originalMinutes d * 60 + originalSeconds d) * originalWattage d) :: rat)"
  have tw: "0 < targetWattage d"
    using valid_request_bounds(3) [OF assms(1)] by simp
  have tw': "0 < tw'"
    using assms(2) by (simp add: isValidWattage_def)
  have a: "0 \<le> ?a"
    using valid_request_bounds [OF assms(1)] by (simp only: of_int_0_le_iff) simp
  have le: "(of_int (targetWattage d) :: rat) \<le> of_int tw'"
    using assms(3) by simp
  have pos: "(0::rat) < of_int tw' * of_int (targetWattage d)"
    using tw tw' by simp
  have "?a / of_int tw' \<le> ?a / of_int (targetWattage d)"
    by (rule divide_left_mono [OF le a pos])
  then have "Math_round (?a / of_int tw') \<le> Math_round (?a / of_int (targetWattage d))"
    by (rule Math_round_mono)
  then show ?thesis
    using tw tw' by (simp add: calculateConversion_def Let_def del: of_int_mult of_int_add)
qed

theorem higher_target_never_longer_witness:
  "valid_request documented_example \<and> isValidWattage 800
   \<and> targetWattage documented_example < 800
   \<and> (\<exists>r r'. calculateConversion documented_example = Some r
      \<and> calculateConversion (documented_example\<lparr>targetWattage := 800\<rparr>) = Some r'
      \<and> newTotalSeconds r' \<le> newTotalSeconds r)"
proof -
  have w: "isValidWattage 800"
    by (simp add: isValidWattage_def)
  have l: "targetWattage documented_example < 800"
    by (simp add: documented_example_def)
  show ?thesis
    using higher_target_never_longer [OF valid_documented_example w l]
      valid_documented_example w l by blast
qed

text \<open>
  One second at 100 W converts to zero seconds for a 1000 W oven and for a 2000 W oven
  alike: the target wattage rises and the converted time does not fall.
\<close>

theorem strict_decrease_counterexample:
  "valid_request one_second_at_1000 \<and> valid_request one_second_example
   \<and> one_second_example = one_second_at_1000\<lparr>targetWattage := 2000\<rparr>
   \<and> targetWattage one_second_at_1000 < targetWattage one_second_example
   \<and> map_option newTotalSeconds (calculateConversion one_second_at_1000) = Some 0
   \<and> map_option newTotalSeconds (calculateConversion one_second_example) = Some 0"
  by code_simp

section \<open>Equal wattages\<close>

text \<open>
  Claim C4. When the original and the target wattage of a request within the ranges are
  equal, the converted time has the total seconds, the minutes and the seconds of the
  original time.
\<close>

theorem same_wattage_same_time:
  assumes "valid_request d" and "originalWattage d = targetWattage d"
  shows "\<exists>r. calculateConversion d = Some r
      \<and> originalTotalSeconds r = originalMinutes d * 60 + originalSeconds d
      \<and> newTotalSeconds r = originalTotalSeconds r
      \<and> newMinutes r = originalMinutes d
      \<and> newSeconds r = originalSeconds d"
proof -
  let ?w = "targetWattage d"
  let ?ots = "originalMinutes d * 60 + originalSeconds d"
  note b = valid_request_bounds [OF assms(1)]
  have tw: "0 < ?w"
    using b(3) by simp
  have "2 * (?ots * ?w) + ?w = ?w + ?ots * (2 * ?w)"
    by (simp add: algebra_simps)
  then have "(2 * (?ots * ?w) + ?w) div (2 * ?w) = ?w div (2 * ?w) + ?ots"
    using tw by (simp only: div_mult_self2) simp
  moreover have "?w div (2 * ?w) = 0"
    using tw by simp
  ultimately have nts: "(2 * (?ots * ?w) + ?w) div (2 * ?w) = ?ots"
    by simp
  have m: "?ots div 60 = originalMinutes d"
    using b(7,8) by simp
  have s: "?ots mod 60 = originalSeconds d"
    using b(7,8) by simp
  have "0 \<le> ?ots"
    using b(9) by simp
  then have "js_rem ?ots 60 = originalSeconds d"
    using s by (simp only: js_rem_nonneg)
  then show ?thesis
    using nts m assms(2) by (simp add: calculateConversion_int [OF tw] Let_def)
qed

theorem same_wattage_same_time_witness:
  "valid_request (documented_example\<lparr>targetWattage := 1000\<rparr>)
   \<and> originalWattage (documented_example\<lparr>targetWattage := 1000\<rparr>)
       = targetWattage (documented_example\<lparr>targetWattage := 1000\<rparr>)
   \<and> (\<exists>r. calculateConversion (documented_example\<lparr>targetWattage := 1000\<rparr>) = Some r
        \<and> newTotalSeconds r = 120 \<and> newMinutes r = 2 \<and> newSeconds r = 0)"
proof -
  let ?d = "documented_example\<lparr>targetWattage := 1000\<rparr>"
  have v: "valid_request ?d"
    by (simp add: valid_request_def isValidWattage_def documented_example_def)
  have e: "originalWattage ?d = targetWattage ?d"
    by (simp add: documented_example_def)
  from same_wattage_same_time [OF v e] v e show ?thesis
    by (auto simp: documented_example_def)
qed

section \<open>The power level recommendation\<close>

text \<open>
  Claim C5. For positive wattages up to 2000, with \<open>r\<close> the unrounded quotient of the
  original by the target wattage, the recommendation is the level 70-80% when \<open>r > 1.5\<close>,
  the level 100% with the less-powerful reason when \<open>r < 0.7\<close>, and the level 100% with
  the similar-power reason otherwise. The bound keeps the wattages where the test on the
  exact quotient and the script's test on the double give the same answer.
\<close>

theorem recommendation_by_ratio:
  assumes "0 < ow" and "ow \<le> 2000" and "0 < tw" and "tw \<le> 2000"
  shows "getPowerLevelRecommendation ow tw =
     (if (of_int ow :: rat) / of_int tw > 15 / 10 then
        \<lparr>powerLevel = ''70-80%'',
         reason = ''Your microwave is much more powerful. Consider using a lower power level.''\<rparr>
      else if (of_int ow :: rat) / of_int tw < 7 / 10 then
        \<lparr>powerLevel = ''100%'',
         reason = ''Your microwave is less powerful. Use full power and check frequently.''\<rparr>
      else
        \<lparr>powerLevel = ''100%'',
         reason = ''Your microwave power is similar to the recipe. Use normal power.''\<rparr>)"
  using assms(3) by (simp add: getPowerLevelRecommendation_def ratio_gt_def ratio_lt_def)

theorem recommendation_by_ratio_witness:
  "powerLevel (getPowerLevelRecommendation 1000 600) = ''70-80%''
   \<and> getPowerLevelRecommendation 600 1000 =
       \<lparr>powerLevel = ''100%'',
        reason = ''Your microwave is less powerful. Use full power and check frequently.''\<rparr>
   \<and> getPowerLevelRecommendation 1000 700 =
       \<lparr>powerLevel = ''100%'',
        reason = ''Your microwave power is similar to the recipe. Use normal power.''\<rparr>
   \<and> getPowerLevelRecommendation 700 1000 =
       \<lparr>powerLevel = ''100%'',
        reason = ''Your microwave power is similar to the recipe. Use normal power.''\<rparr>"
  using recommendation_by_ratio [of 1000 600] recommendation_by_ratio [of 600 1000]
    recommendation_by_ratio [of 1000 700] recommendation_by_ratio [of 700 1000]
  by simp

section \<open>What validation does to the document\<close>

lemma fieldGroup_not_TimeRow: "fieldGroup i \<noteq> TimeRow"
  by (cases i) simp_all

lemma clearErrors_frame:
  "inputs (clearErrors i p) = inputs p" "resultTime (clearErrors i p) = resultTime p"
  "resultExplanation (clearErrors i p) = resultExplanation p"
  "resultHidden (clearErrors i p) = resultHidden p"
  by (simp_all add: clearErrors_def Let_def split: option.splits)

lemma showError_frame:
  "inputs (showError g m p) = inputs p" "resultTime (showError g m p) = resultTime p"
  "resultExplanation (showError g m p) = resultExplanation p"
  "resultHidden (showError g m p) = resultHidden p"
  by (simp_all add: showError_def Let_def split: option.splits)

lemma showSuccess_frame:
  "inputs (showSuccess g p) = inputs p" "resultTime (showSuccess g p) = resultTime p"
  "resultExplanation (showSuccess g p) = resultExplanation p"
  "resultHidden (showSuccess g p) = resultHidden p"
  by (simp_all add: showSuccess_def Let_def split: option.splits)

lemma validateInput_frame:
  "inputs (snd (validateInput i p)) = inputs p"
  "resultTime (snd (validateInput i p)) = resultTime p"
  "resultExplanation (snd (validateInput i p)) = resultExplanation p"
  "resultHidden (snd (validateInput i p)) = resultHidden p"
  by (simp_all add: validateInput_def Let_def clearErrors_frame showError_frame showSuccess_frame)

lemma fst_validateInput:
  "fst (validateInput i p) =
     (\<not> (required i \<and> (inputs p i = None \<or> num_le (inputs p i) 0))
      \<and> \<not> (id_includes_Wattage i \<and> num_lt (inputs p i) 100)
      \<and> \<not> (id_includes_Wattage i \<and> num_gt (inputs p i) 2000)
      \<and> \<not> (i = OriginalSeconds \<and> num_gt (inputs p i) 59)
      \<and> \<not> (i = OriginalMinutes \<and> num_gt (inputs p i) 60))"
  by (cases i) (simp_all add: validateInput_def Let_def)

lemma shown_showError: "shown (showError g m p) g = Some m"
  by (auto simp: shown_def showError_def querySelector_errorMessage_def Let_def
      split: option.splits)

lemma rejection_eq:
  "rejection i p =
     (if required i \<and> (inputs p i = None \<or> num_le (inputs p i) 0) then Some FieldRequired
      else if id_includes_Wattage i \<and> num_lt (inputs p i) 100 then Some WattageAtLeast
      else if id_includes_Wattage i \<and> num_gt (inputs p i) 2000 then Some WattageAtMost
      else if i = OriginalSeconds \<and> num_gt (inputs p i) 59 then Some SecondsBetween
      else if i = OriginalMinutes \<and> num_gt (inputs p i) 60 then Some MinutesReasonable
      else None)"
  by (cases i) (simp_all add: rejection_def validateInput_def Let_def shown_showError)

lemma rejection_None_iff: "rejection i p = None \<longleftrightarrow> fst (validateInput i p)"
  by (cases i) (simp_all add: rejection_eq fst_validateInput)

lemma clearErrors_row_None:
  "errorMessage p TimeRow = None \<Longrightarrow> errorMessage (clearErrors i p) TimeRow = None"
  by (simp add: clearErrors_def Let_def querySelector_errorMessage_def)

lemma clearErrors_time_row:
  "fieldGroup i = TimeGroup \<Longrightarrow> errorMessage (clearErrors i p) TimeRow = None"
  by (auto simp: clearErrors_def Let_def querySelector_errorMessage_def)

lemma showError_row_None:
  "errorMessage p TimeRow = None \<Longrightarrow> g \<noteq> TimeRow \<Longrightarrow>
   errorMessage (showError g m p) TimeRow = None"
  by (simp add: showError_def Let_def querySelector_errorMessage_def)

lemma showSuccess_row_None:
  "errorMessage p TimeRow = None \<Longrightarrow> errorMessage (showSuccess g p) TimeRow = None"
  by (simp add: showSuccess_def Let_def querySelector_errorMessage_def)

lemma validateInput_row_None:
  assumes "errorMessage p TimeRow = None \<or> fieldGroup i = TimeGroup"
  shows "errorMessage (snd (validateInput i p)) TimeRow = None"
proof -
  have "errorMessage (clearErrors i p) TimeRow = None"
    using assms clearErrors_row_None clearErrors_time_row by blast
  then show ?thesis
    by (cases i) (simp_all add: validateInput_def Let_def showError_row_None showSuccess_row_None)
qed

lemma showError_row: "errorMessage (showError TimeRow m p) TimeRow = Some m"
  by (simp add: showError_def Let_def querySelector_errorMessage_def)

lemma validateForm_unfold:
  "validateForm p =
     (let p1 = snd (validateInput OriginalWattage p);
          p2 = snd (validateInput OriginalMinutes p1);
          p3 = snd (validateInput OriginalSeconds p2);
          p4 = snd (validateInput TargetWattage p3)
      in if parseInt_or_0 (inputs p OriginalMinutes) = 0
            \<and> parseInt_or_0 (inputs p OriginalSeconds) = 0
         then (False, showError TimeRow SpecifyTime p4)
         else (fst (validateInput OriginalWattage p) \<and> fst (validateInput OriginalMinutes p)
               \<and> fst (validateInput OriginalSeconds p) \<and> fst (validateInput TargetWattage p),
               p4))"
  by (simp add: validateForm_def number_inputs_def Let_def case_prod_beta validateInput_frame
      fst_validateInput)

lemma validateForm_frame:
  "inputs (snd (validateForm p)) = inputs p"
  "resultTime (snd (validateForm p)) = resultTime p"
  "resultExplanation (snd (validateForm p)) = resultExplanation p"
  "resultHidden (snd (validateForm p)) = resultHidden p"
  by (simp_all add: validateForm_unfold Let_def validateInput_frame showError_frame)

lemma fst_validateForm:
  "fst (validateForm p) =
     (fst (validateInput OriginalWattage p) \<and> fst (validateInput OriginalMinutes p)
      \<and> fst (validateInput OriginalSeconds p) \<and> fst (validateInput TargetWattage p)
      \<and> \<not> (parseInt_or_0 (inputs p OriginalMinutes) = 0
            \<and> parseInt_or_0 (inputs p OriginalSeconds) = 0))"
  by (simp add: validateForm_unfold Let_def)

lemma validateForm_row:
  "errorMessage (snd (validateForm p)) TimeRow =
     (if parseInt_or_0 (inputs p OriginalMinutes) = 0
         \<and> parseInt_or_0 (inputs p OriginalSeconds) = 0
      then Some SpecifyTime else None)"
  by (simp add: validateForm_unfold Let_def showError_row validateInput_row_None)

lemma reported_eq:
  "reported p =
     List.map_filter (\<lambda>i. rejection i p) number_inputs
     @ (if parseInt_or_0 (inputs p OriginalMinutes) = 0
           \<and> parseInt_or_0 (inputs p OriginalSeconds) = 0
        then [SpecifyTime] else [])"
  by (simp add: reported_def validateForm_row)

lemma validateForm_iff_nothing_reported: "fst (validateForm p) \<longleftrightarrow> reported p = []"
  by (auto simp: fst_validateForm reported_eq number_inputs_def map_filter_def
      rejection_None_iff [symmetric])


lemma page_of_inputs:
  "inputs (page_of d p) OriginalWattage = Some (originalWattage d)"
  "inputs (page_of d p) OriginalMinutes = Some (originalMinutes d)"
  "inputs (page_of d p) OriginalSeconds = Some (originalSeconds d)"
  "inputs (page_of d p) TargetWattage = Some (targetWattage d)"
  by (simp_all add: page_of_def)

lemma parseInt_or_0_Some: "parseInt_or_0 (Some n) = n"
  by (simp add: parseInt_or_0_def)

lemma accepts_page_of:
  "fst (validateForm (page_of d p)) \<longleftrightarrow>
     isValidWattage (originalWattage d) \<and> isValidWattage (targetWattage d)
     \<and> originalMinutes d \<le> 60 \<and> originalSeconds d \<le> 59
     \<and> \<not> (originalMinutes d = 0 \<and> originalSeconds d = 0)"
  by (auto simp: fst_validateForm fst_validateInput page_of_inputs parseInt_or_0_Some
      isValidWattage_def num_le_def num_lt_def num_gt_def)

lemma reported_page_of:
  "set (reported (page_of d p)) =
     {m. (m = FieldRequired \<and> (originalWattage d \<le> 0 \<or> targetWattage d \<le> 0))
       \<or> (m = WattageAtLeast \<and> (0 < originalWattage d \<and> originalWattage d < 100
              \<or> 0 < targetWattage d \<and> targetWattage d < 100))
       \<or> (m = WattageAtMost \<and> (2000 < originalWattage d \<or> 2000 < targetWattage d))
       \<or> (m = SecondsBetween \<and> 59 < originalSeconds d)
       \<or> (m = MinutesReasonable \<and> 60 < originalMinutes d)
       \<or> (m = SpecifyTime \<and> originalMinutes d = 0 \<and> originalSeconds d = 0)}"
  by (auto simp: reported_eq number_inputs_def map_filter_def rejection_eq page_of_inputs
      parseInt_or_0_Some num_le_def num_lt_def num_gt_def split: if_splits)

lemma kind_in_image:
  "k \<in> kind_of ` S \<longleftrightarrow>
     k = MissingField \<and> FieldRequired \<in> S
     \<or> k = OutOfRange \<and> (WattageAtLeast \<in> S \<or> WattageAtMost \<in> S)
     \<or> k = InvalidTime \<and> (SecondsBetween \<in> S \<or> MinutesReasonable \<in> S \<or> SpecifyTime \<in> S)"
  (is "?l \<longleftrightarrow> ?r")
proof
  assume ?l
  then obtain m where "m \<in> S" and "k = kind_of m"
    by auto
  then show ?r
    by (cases m) auto
next
  assume ?r
  then show ?l
    by (force simp: image_iff)
qed

lemma handleSubmit_valid:
  assumes "valid_request d" and "calculateConversion d = Some r"
  shows "handleSubmit (page_of d p) = displayResult r d (snd (validateForm (page_of d p)))"
proof -
  have ok: "fst (validateForm (page_of d p))"
    using valid_request_bounds [OF assms(1)]
    by (simp add: accepts_page_of isValidWattage_def)
  have "getFormData (snd (validateForm (page_of d p))) = Some d"
    by (simp add: getFormData_def validateForm_frame page_of_inputs parseInt_or_0_Some)
  then show ?thesis
    using ok assms(2) by (simp add: handleSubmit_def case_prod_beta)
qed


lemma formatInput_nonneg: "formatInput i v = Some n \<Longrightarrow> 0 \<le> n"
  by (cases i; cases v)
    (auto simp: formatWattage_def formatSeconds_def formatMinutes_def num_gt_def num_lt_def
      Let_def split: if_splits)

lemma onInput_value: "inputs (onInput i v p) i = formatInput i v"
  by (simp add: onInput_def Let_def clearErrors_frame)

section \<open>The outcomes of validation\<close>

text \<open>
  Claim C2, as the code has it. For a request whose four fields are present: validation
  fails with \<open>OutOfRange\<close> exactly when a wattage is positive and outside 100..2000, and
  with \<open>MissingField\<close> exactly when a wattage is zero or negative, so that every wattage
  outside 100..2000 is rejected; and when minutes and seconds are not negative, it fails
  with \<open>InvalidTime\<close> exactly when the seconds are outside 0..59, or the minutes are
  outside 0..60, or both are zero, and it accepts exactly the requests within the ranges.
\<close>

theorem validation_outcomes:
  "(fails_with (page_of d p) OutOfRange \<longleftrightarrow>
      0 < originalWattage d \<and> \<not> isValidWattage (originalWattage d)
      \<or> 0 < targetWattage d \<and> \<not> isValidWattage (targetWattage d))
   \<and> (fails_with (page_of d p) MissingField \<longleftrightarrow>
        originalWattage d \<le> 0 \<or> targetWattage d \<le> 0)
   \<and> (0 \<le> originalMinutes d \<and> 0 \<le> originalSeconds d \<longrightarrow>
        (fails_with (page_of d p) InvalidTime \<longleftrightarrow>
           \<not> (0 \<le> originalSeconds d \<and> originalSeconds d \<le> 59)
           \<or> \<not> (0 \<le> originalMinutes d \<and> originalMinutes d \<le> 60)
           \<or> originalMinutes d = 0 \<and> originalSeconds d = 0)
        \<and> (fst (validateForm (page_of d p)) \<longleftrightarrow> valid_request d))"
proof -
  have a: "fails_with (page_of d p) OutOfRange \<longleftrightarrow>
      0 < originalWattage d \<and> \<not> isValidWattage (originalWattage d)
      \<or> 0 < targetWattage d \<and> \<not> isValidWattage (targetWattage d)"
    unfolding fails_with_def kind_in_image reported_page_of accepts_page_of
    by (auto simp: isValidWattage_def)
  have b: "fails_with (page_of d p) MissingField \<longleftrightarrow>
        originalWattage d \<le> 0 \<or> targetWattage d \<le> 0"
    unfolding fails_with_def kind_in_image reported_page_of accepts_page_of
    by (auto simp: isValidWattage_def)
  have c: "fails_with (page_of d p) InvalidTime \<longleftrightarrow>
        59 < originalSeconds d \<or> 60 < originalMinutes d
        \<or> originalMinutes d = 0 \<and> originalSeconds d = 0"
    unfolding fails_with_def kind_in_image reported_page_of accepts_page_of
    by (auto simp: isValidWattage_def)
  show ?thesis
    using a b c by (auto simp: accepts_page_of valid_request_def)
qed

theorem validation_outcomes_witness:
  "fails_with (page_of (documented_example\<lparr>originalWattage := 99\<rparr>) initial_page) OutOfRange
   \<and> fails_with (page_of (documented_example\<lparr>targetWattage := 2001\<rparr>) initial_page) OutOfRange
   \<and> fst (validateForm (page_of one_second_example initial_page))
   \<and> fails_with (page_of (documented_example\<lparr>originalMinutes := 0\<rparr>) initial_page) InvalidTime
   \<and> fails_with (page_of (documented_example\<lparr>originalSeconds := 60\<rparr>) initial_page) InvalidTime
   \<and> fails_with (page_of (documented_example\<lparr>originalMinutes := 61\<rparr>) initial_page) InvalidTime"
  using validation_outcomes [of "documented_example\<lparr>originalWattage := 99\<rparr>" initial_page]
    validation_outcomes [of "documented_example\<lparr>targetWattage := 2001\<rparr>" initial_page]
    validation_outcomes [of one_second_example initial_page]
    validation_outcomes [of "documented_example\<lparr>originalMinutes := 0\<rparr>" initial_page]
    validation_outcomes [of "documented_example\<lparr>originalSeconds := 60\<rparr>" initial_page]
    validation_outcomes [of "documented_example\<lparr>originalMinutes := 61\<rparr>" initial_page]
  by (simp add: documented_example_def one_second_example_def isValidWattage_def
      valid_request_def)

theorem validation_counterexample:
  "originalSeconds negative_seconds_example = - 1
   \<and> fst (validateForm (page_of negative_seconds_example initial_page))
   \<and> \<not> fails_with (page_of negative_seconds_example initial_page) InvalidTime
   \<and> originalWattage zero_wattage_example = 0
   \<and> \<not> fails_with (page_of zero_wattage_example initial_page) OutOfRange
   \<and> fails_with (page_of zero_wattage_example initial_page) MissingField"
  by code_simp

section \<open>The effects of validation\<close>

text \<open>
  Claim C9, as the code has it. \<open>validateInput\<close> and \<open>validateForm\<close> return a boolean and
  leave the four input values and the result section as they were; what they change is
  the validation display of the field groups.
\<close>

theorem validation_frame:
  "inputs (snd (validateForm p)) = inputs p
   \<and> resultTime (snd (validateForm p)) = resultTime p
   \<and> resultExplanation (snd (validateForm p)) = resultExplanation p
   \<and> resultHidden (snd (validateForm p)) = resultHidden p
   \<and> inputs (snd (validateInput i p)) = inputs p
   \<and> resultTime (snd (validateInput i p)) = resultTime p
   \<and> resultExplanation (snd (validateInput i p)) = resultExplanation p
   \<and> resultHidden (snd (validateInput i p)) = resultHidden p"
proof (intro conjI)
  show "inputs (snd (validateForm p)) = inputs p"
    by (rule validateForm_frame(1))
  show "resultTime (snd (validateForm p)) = resultTime p"
    by (rule validateForm_frame(2))
  show "resultExplanation (snd (validateForm p)) = resultExplanation p"
    by (rule validateForm_frame(3))
  show "resultHidden (snd (validateForm p)) = resultHidden p"
    by (rule validateForm_frame(4))
  show "inputs (snd (validateInput i p)) = inputs p"
    by (rule validateInput_frame(1))
  show "resultTime (snd (validateInput i p)) = resultTime p"
    by (rule validateInput_frame(2))
  show "resultExplanation (snd (validateInput i p)) = resultExplanation p"
    by (rule validateInput_frame(3))
  show "resultHidden (snd (validateInput i p)) = resultHidden p"
    by (rule validateInput_frame(4))
qed

theorem validation_frame_witness:
  "fst (validateForm (page_of documented_example initial_page))
   \<and> inputs (snd (validateForm (page_of documented_example initial_page)))
       = inputs (page_of documented_example initial_page)
   \<and> getFormData (snd (validateForm (page_of documented_example initial_page)))
       = Some documented_example"
proof -
  have i: "inputs (snd (validateForm (page_of documented_example initial_page)))
      = inputs (page_of documented_example initial_page)"
    using validation_frame [of "page_of documented_example initial_page" OriginalWattage]
    by blast
  have "fst (validateForm (page_of documented_example initial_page))"
    by (simp add: accepts_page_of documented_example_def isValidWattage_def)
  then show ?thesis
    using i by (simp add: getFormData_def page_of_inputs parseInt_or_0_Some)
qed

text \<open>
  A successful validation marks the first group with the class \<^verbatim>\<open>success\<close>, and a failed
  one on the initial document puts a message on the time row.
\<close>

theorem validation_effect_counterexample:
  "fst (validateForm (page_of documented_example initial_page))
   \<and> \<not> successClass (page_of documented_example initial_page) RecipeGroup
   \<and> successClass (snd (validateForm (page_of documented_example initial_page))) RecipeGroup
   \<and> shown initial_page TimeRow = None
   \<and> \<not> fst (validateForm initial_page)
   \<and> shown (snd (validateForm initial_page)) TimeRow = Some SpecifyTime"
  by code_simp

text \<open>
  The values of the inputs are rewritten elsewhere: by the \<^verbatim>\<open>input\<close> listeners, which
  replace a value outside the range as soon as it is entered.
\<close>

lemma input_listeners_rewrite_values:
  "inputs (onInput OriginalWattage (Some 2500) initial_page) OriginalWattage = Some 2000
   \<and> inputs (onInput OriginalSeconds (Some (- 5)) initial_page) OriginalSeconds = Some 0
   \<and> inputs (onInput OriginalMinutes (Some 75) initial_page) OriginalMinutes = Some 60
   \<and> inputs (onInput TargetWattage (Some (- 1)) initial_page) TargetWattage = None"
  by code_simp

section \<open>A converted time of zero\<close>

text \<open>
  Claim C10. The request of one second at 100 W for a 2000 W oven is within the ranges and
  passes \<open>validateForm\<close>, and its converted time is zero seconds: minutes 0, seconds 0,
  displayed as ``0s''.
\<close>

theorem converted_time_can_be_zero:
  "valid_request one_second_example
   \<and> fst (validateForm (page_of one_second_example initial_page))
   \<and> getFormData (snd (validateForm (page_of one_second_example initial_page)))
       = Some one_second_example
   \<and> calculateConversion one_second_example
       = Some \<lparr>originalTotalSeconds = 1, newTotalSeconds = 0, newMinutes = 0, newSeconds = 0,
               ratio = 1 / 20\<rparr>
   \<and> resultTime (handleSubmit (page_of one_second_example initial_page)) = ''0s''"
  by code_simp

section \<open>Rendering of numbers and times\<close>

lemma digit_char_not_whitespace: "d < 10 \<Longrightarrow> \<not> is_whitespace (digit_char d)"
proof -
  assume "d < 10"
  then have "d \<in> {0, 1, 2, 3, 4, 5, 6, 7, 8, 9}"
    by auto
  then show ?thesis
    by (auto simp: digit_char_def is_whitespace_def)
qed

lemma digits_not_Nil: "digits n \<noteq> []"
  by (subst digits.simps) simp

lemma digits_no_whitespace: "c \<in> set (digits n) \<Longrightarrow> \<not> is_whitespace c"
proof (induction n arbitrary: c rule: digits.induct)
  case (1 n)
  show ?case
  proof (cases "n < 10")
    case True
    with "1.prems" show ?thesis
      by (subst (asm) digits.simps) (simp add: digit_char_not_whitespace)
  next
    case False
    with "1.prems" have "c \<in> set (digits (n div 10)) \<or> c = digit_char (n mod 10)"
      by (subst (asm) digits.simps) auto
    then show ?thesis
      using "1.IH" False digit_char_not_whitespace [of "n mod 10"] by auto
  qed
qed

lemma toString_not_Nil: "toString n \<noteq> []"
  by (simp add: toString_def digits_not_Nil)

lemma toString_no_whitespace: "c \<in> set (toString n) \<Longrightarrow> \<not> is_whitespace c"
proof -
  assume "c \<in> set (toString n)"
  then have "c = CHR ''-'' \<or> c \<in> set (digits (nat (- n))) \<or> c \<in> set (digits (nat n))"
    by (auto simp: toString_def split: if_splits)
  moreover have "\<not> is_whitespace CHR ''-''"
    by (simp add: is_whitespace_def)
  ultimately show ?thesis
    using digits_no_whitespace by blast
qed

lemma hd_toString_not_whitespace: "\<not> is_whitespace (hd (toString n))"
  using toString_no_whitespace [of "hd (toString n)" n] toString_not_Nil [of n] by simp

lemma dropWhile_toString: "dropWhile is_whitespace (toString n @ s) = toString n @ s"
  using hd_toString_not_whitespace [of n] toString_not_Nil [of n]
  by (cases "toString n") simp_all

lemma trim_keeps:
  assumes "\<not> is_whitespace c"
  shows "trim (toString n @ s @ [c]) = toString n @ s @ [c]"
  using assms by (simp add: trim_def dropWhile_toString)

lemma trim_drops_space:
  assumes "\<not> is_whitespace c"
  shows "trim (toString n @ [c] @ '' '') = toString n @ [c]"
  using assms by (simp add: trim_def dropWhile_toString is_whitespace_def)

text \<open>The four outcomes of \<open>formatTime\<close>; the last arises only for negative minutes.\<close>

lemma formatTime_cases:
  "formatTime m s =
     (if m > 0 then (if s > 0 then toString m @ ''m '' @ toString s @ ''s''
                     else toString m @ ''m'')
      else if m = 0 then toString s @ ''s''
      else if s > 0 then toString s @ ''s'' else [])"
proof -
  have a: "trim (toString m @ ''m '' @ toString s @ ''s'') = toString m @ ''m '' @ toString s @ ''s''"
    using trim_keeps [of "CHR ''s''" m "''m '' @ toString s"] by (simp add: is_whitespace_def)
  have b: "trim (toString m @ ''m '') = toString m @ ''m''"
    using trim_drops_space [of "CHR ''m''" m] by (simp add: is_whitespace_def)
  have c: "trim (toString s @ ''s'') = toString s @ ''s''"
    using trim_keeps [of "CHR ''s''" s "[]"] by (simp add: is_whitespace_def)
  have d: "trim [] = []"
    by (simp add: trim_def)
  show ?thesis
    using a b c d by (simp add: formatTime_def Let_def)
qed

lemma converted_time_bounds:
  assumes "valid_request d" and "calculateConversion d = Some r"
  shows "0 \<le> newTotalSeconds r" "newMinutes r = newTotalSeconds r div 60"
    "newSeconds r = newTotalSeconds r mod 60"
proof -
  have tw: "0 < targetWattage d"
    using valid_request_bounds(3) [OF assms(1)] by simp
  have nn: "0 \<le> Math_round (of_int ((originalMinutes d * 60 + originalSeconds d)
      * originalWattage d) / of_int (targetWattage d))"
    by (rule Math_round_nonneg [OF quotient_nonneg [OF assms(1)]])
  have r: "newTotalSeconds r = Math_round (of_int ((originalMinutes d * 60 + originalSeconds d)
      * originalWattage d) / of_int (targetWattage d))"
    "newMinutes r = Math_floor (of_int (newTotalSeconds r) / 60)"
    "newSeconds r = js_rem (newTotalSeconds r) 60"
    using assms(2) tw by (auto simp: calculateConversion_def Let_def simp del: of_int_mult of_int_add)
  show "0 \<le> newTotalSeconds r"
    using nn r(1) by simp
  then show "newSeconds r = newTotalSeconds r mod 60"
    using r(3) by (simp add: js_rem_nonneg)
  show "newMinutes r = newTotalSeconds r div 60"
    using r(2) by (simp only: Math_floor_60)
qed

lemma toString_30: "toString 30 = ''30''"
  by code_simp

lemma toString_1: "toString 1 = ''1''"
  by code_simp

lemma toString_0: "toString 0 = ''0''"
  by code_simp

section \<open>The formatted times\<close>

text \<open>
  Claim C6, as the code has it. For a request within the ranges, the converted time has
  minutes at least 0 and seconds in 0..59, and is displayed as minutes, ``m'', a space,
  seconds, ``s'' when its minutes are positive and as seconds, ``s'' when they are zero,
  so 30 seconds read ``30s'' and 60 seconds read ``1m 0s''. The original time is rendered
  by \<open>formatTime\<close>: like the converted time, except that with positive minutes and zero
  seconds it is minutes and ``m'' alone.
\<close>

theorem formatted_durations:
  assumes "valid_request d" and "calculateConversion d = Some r"
  shows "0 \<le> newMinutes r \<and> 0 \<le> newSeconds r \<and> newSeconds r \<le> 59
    \<and> resultTime (handleSubmit (page_of d p)) =
        (if newMinutes r > 0 then toString (newMinutes r) @ ''m '' @ toString (newSeconds r) @ ''s''
         else toString (newSeconds r) @ ''s'')
    \<and> formatTime (originalMinutes d) (originalSeconds d) =
        (if originalMinutes d > 0
         then (if originalSeconds d > 0
               then toString (originalMinutes d) @ ''m '' @ toString (originalSeconds d) @ ''s''
               else toString (originalMinutes d) @ ''m'')
         else toString (originalSeconds d) @ ''s'')
    \<and> (newTotalSeconds r = 30 \<longrightarrow> resultTime (handleSubmit (page_of d p)) = ''30s'')
    \<and> (newTotalSeconds r = 60 \<longrightarrow> resultTime (handleSubmit (page_of d p)) = ''1m 0s'')"
proof -
  note c = converted_time_bounds [OF assms]
  have m: "0 \<le> newMinutes r"
    using c(1,2) by simp
  have s: "0 \<le> newSeconds r" "newSeconds r \<le> 59"
    using c(3) by simp_all
  have t: "resultTime (handleSubmit (page_of d p)) =
        (if newMinutes r > 0 then toString (newMinutes r) @ ''m '' @ toString (newSeconds r) @ ''s''
         else toString (newSeconds r) @ ''s'')"
    by (simp add: handleSubmit_valid [OF assms] displayResult_def Let_def)
  have f: "formatTime (originalMinutes d) (originalSeconds d) =
        (if originalMinutes d > 0
         then (if originalSeconds d > 0
               then toString (originalMinutes d) @ ''m '' @ toString (originalSeconds d) @ ''s''
               else toString (originalMinutes d) @ ''m'')
         else toString (originalSeconds d) @ ''s'')"
    using valid_request_bounds(5) [OF assms(1)] by (simp add: formatTime_cases)
  have e30: "resultTime (handleSubmit (page_of d p)) = ''30s''" if "newTotalSeconds r = 30"
    using that c(2,3) t by (simp add: toString_30)
  have e60: "resultTime (handleSubmit (page_of d p)) = ''1m 0s''" if "newTotalSeconds r = 60"
    using that c(2,3) t by (simp add: toString_1 toString_0)
  show ?thesis
    using m s t f e30 e60 by blast
qed

theorem formatted_durations_witness:
  "valid_request thirty_seconds_example
   \<and> resultTime (handleSubmit (page_of thirty_seconds_example initial_page)) = ''30s''
   \<and> formatTime 0 30 = ''30s''
   \<and> valid_request (one_minute_example\<lparr>targetWattage := 1000\<rparr>)
   \<and> resultTime (handleSubmit (page_of (one_minute_example\<lparr>targetWattage := 1000\<rparr>)
        initial_page)) = ''1m 0s''"
proof -
  let ?a = thirty_seconds_example
  let ?b = "one_minute_example\<lparr>targetWattage := 1000\<rparr>"
  have va: "valid_request ?a"
    by (simp add: valid_request_def isValidWattage_def thirty_seconds_example_def)
  have vb: "valid_request ?b"
    by (simp add: valid_request_def isValidWattage_def one_minute_example_def)
  have ca: "calculateConversion ?a = Some \<lparr>originalTotalSeconds = 30, newTotalSeconds = 30,
      newMinutes = 0, newSeconds = 30, ratio = 1\<rparr>"
    by code_simp
  have cb: "calculateConversion ?b = Some \<lparr>originalTotalSeconds = 60, newTotalSeconds = 60,
      newMinutes = 1, newSeconds = 0, ratio = 1\<rparr>"
    by code_simp
  have "formatTime 0 30 = ''30s''"
    using formatted_durations [OF va ca, of initial_page]
    by (simp add: thirty_seconds_example_def toString_30)
  then show ?thesis
    using formatted_durations [OF va ca, of initial_page]
      formatted_durations [OF vb cb, of initial_page] va vb
    by (simp add: toString_30 toString_1 toString_0)
qed

theorem original_time_format_counterexample:
  "valid_request one_minute_example
   \<and> 0 < originalMinutes one_minute_example
   \<and> formatTime (originalMinutes one_minute_example) (originalSeconds one_minute_example) = ''1m''
   \<and> toString (originalMinutes one_minute_example) @ ''m ''
       @ toString (originalSeconds one_minute_example) @ ''s'' = ''1m 0s''
   \<and> resultExplanation (handleSubmit (page_of one_minute_example initial_page))
       = ''Cook for 1m 40s instead of 1m''"
  by code_simp

section \<open>The ratio\<close>

text \<open>
  Claim C7, as the code has it. For a request within the ranges, the \<open>ratio\<close> field of the
  result is the quotient of the original by the target wattage as the division yields it:
  it is within the relative error \<open>2^-53\<close> of a double of the exact quotient, and
  wherever rounding the quotient to two decimal places would change it, the field is not
  the rounded value. The division that gives \<open>newTotalSeconds\<close> uses the unrounded
  wattages: it divides the product of the total seconds and the original wattage by the
  target wattage.
\<close>

theorem ratio_is_unrounded:
  assumes "valid_request d"
  shows "\<exists>r. calculateConversion d = Some r
     \<and> \<bar>ratio r - of_int (originalWattage d) / of_int (targetWattage d)\<bar> * 2 ^ 53
         \<le> of_int (originalWattage d) / of_int (targetWattage d)
     \<and> (round_to_2_decimals (of_int (originalWattage d) / of_int (targetWattage d))
           \<noteq> of_int (originalWattage d) / of_int (targetWattage d)
         \<longrightarrow> ratio r
           \<noteq> round_to_2_decimals (of_int (originalWattage d) / of_int (targetWattage d)))
     \<and> newTotalSeconds r = Math_round
         (of_int ((originalMinutes d * 60 + originalSeconds d) * originalWattage d)
           / of_int (targetWattage d))"
proof -
  have tw: "0 < targetWattage d"
    using valid_request_bounds(3) [OF assms] by simp
  have ow: "0 < originalWattage d"
    using valid_request_bounds(1) [OF assms] by simp
  have "(0::rat) \<le> of_int (originalWattage d) / of_int (targetWattage d)"
    using tw ow by simp
  then show ?thesis
    using tw by (simp add: calculateConversion_def Let_def del: of_int_mult of_int_add)
qed

theorem ratio_is_unrounded_witness:
  "valid_request documented_example
   \<and> round_to_2_decimals (of_int (originalWattage documented_example)
         / of_int (targetWattage documented_example)) = 143 / 100
   \<and> (\<exists>r. calculateConversion documented_example = Some r
        \<and> ratio r \<noteq> 143 / 100 \<and> newTotalSeconds r = 171)"
proof -
  let ?q = "(of_int (originalWattage documented_example) :: rat)
      / of_int (targetWattage documented_example)"
  obtain r where r: "calculateConversion documented_example = Some r"
      "round_to_2_decimals ?q \<noteq> ?q \<longrightarrow> ratio r \<noteq> round_to_2_decimals ?q"
      "newTotalSeconds r = Math_round
         (of_int ((originalMinutes documented_example * 60
             + originalSeconds documented_example) * originalWattage documented_example)
           / of_int (targetWattage documented_example))"
    using ratio_is_unrounded [OF valid_documented_example] by blast
  have q: "?q = 10 / 7"
    by (simp add: documented_example_def)
  have two: "round_to_2_decimals (10 / 7) = 143 / 100"
    by code_simp
  have two': "round_to_2_decimals ?q = 143 / 100"
    using two by (simp only: q)
  have "round_to_2_decimals ?q \<noteq> ?q"
    unfolding two' by (simp add: documented_example_def)
  then have a: "ratio r \<noteq> 143 / 100"
    using r(2) two' by (simp only:) simp
  have "Math_round (of_int ((2 * 60 + 0) * 1000) / of_int 700) = 171"
    by code_simp
  then have n: "newTotalSeconds r = 171"
    using r(3) by (simp add: documented_example_def)
  show ?thesis
    using valid_documented_example two' r(1) a n by blast
qed

theorem ratio_not_rounded_counterexample:
  "valid_request documented_example
   \<and> round_to_2_decimals (of_int (originalWattage documented_example)
         / of_int (targetWattage documented_example)) = 143 / 100
   \<and> map_option ratio (calculateConversion documented_example) \<noteq> Some (143 / 100)
   \<and> (case calculateConversion documented_example of
         None \<Rightarrow> False
       | Some r \<Rightarrow> 1 / 1000 < \<bar>ratio r - 143 / 100\<bar>)"
  by code_simp

text \<open>
  The time is rounded from the wattages themselves, not from a stored ratio: 145 seconds
  at 100 W for a 232 W oven are 62.5 and so 63 seconds, and 120 seconds at 1000 W for a
  700 W oven are 171 seconds, where the ratio rounded to two decimals would give 172.
\<close>

lemma half_second_example:
  "valid_request \<lparr>originalWattage = 100, originalMinutes = 2, originalSeconds = 25,
      targetWattage = 232\<rparr>
   \<and> map_option newTotalSeconds (calculateConversion \<lparr>originalWattage = 100,
        originalMinutes = 2, originalSeconds = 25, targetWattage = 232\<rparr>) = Some 63"
  by code_simp

lemma rounded_ratio_would_change_the_time:
  "Math_round (120 * round_to_2_decimals (10 / 7)) = 172
   \<and> map_option newTotalSeconds (calculateConversion documented_example) = Some 171"
  by code_simp

section \<open>The explanation\<close>

text \<open>
  Claim C8, as the code has it. For a request within the ranges, the explanation is the
  sentence ``Cook for'', the displayed converted time, ``instead of'', the formatted
  original time; it contains both formatted times, and no wattage.
\<close>

theorem explanation_template:
  assumes "valid_request d" and "calculateConversion d = Some r"
  shows "resultExplanation (handleSubmit (page_of d p)) =
      ''Cook for '' @ resultTime (handleSubmit (page_of d p)) @ '' instead of ''
        @ formatTime (originalMinutes d) (originalSeconds d)
    \<and> sublist (resultTime (handleSubmit (page_of d p)))
        (resultExplanation (handleSubmit (page_of d p)))
    \<and> sublist (formatTime (originalMinutes d) (originalSeconds d))
        (resultExplanation (handleSubmit (page_of d p)))"
proof -
  have e: "resultExplanation (handleSubmit (page_of d p)) =
      ''Cook for '' @ resultTime (handleSubmit (page_of d p)) @ '' instead of ''
        @ formatTime (originalMinutes d) (originalSeconds d)"
    by (simp add: handleSubmit_valid [OF assms] displayResult_def Let_def)
  have "sublist (resultTime (handleSubmit (page_of d p)))
      (''Cook for '' @ resultTime (handleSubmit (page_of d p)) @ ('' instead of ''
        @ formatTime (originalMinutes d) (originalSeconds d)))"
    by (rule sublist_appendI)
  moreover have "sublist (formatTime (originalMinutes d) (originalSeconds d))
      ((''Cook for '' @ resultTime (handleSubmit (page_of d p)) @ '' instead of '')
        @ formatTime (originalMinutes d) (originalSeconds d))"
    by (rule sublist_append_leftI)
  ultimately show ?thesis
    using e by simp
qed

theorem explanation_template_witness:
  "valid_request documented_example
   \<and> resultExplanation (handleSubmit (page_of documented_example initial_page))
       = ''Cook for 2m 51s instead of 2m''"
proof -
  have c: "calculateConversion documented_example = Some \<lparr>originalTotalSeconds = 120,
      newTotalSeconds = 171, newMinutes = 2, newSeconds = 51, ratio = 10 / 7\<rparr>"
    by code_simp
  have t: "resultTime (handleSubmit (page_of documented_example initial_page)) = ''2m 51s''"
    by code_simp
  have f: "formatTime (originalMinutes documented_example) (originalSeconds documented_example)
      = ''2m''"
    by code_simp
  show ?thesis
    using explanation_template [OF valid_documented_example c, of initial_page] t f
      valid_documented_example
    by simp
qed

theorem explanation_without_wattages_counterexample:
  "valid_request documented_example
   \<and> resultExplanation (handleSubmit (page_of documented_example initial_page))
       = ''Cook for 2m 51s instead of 2m''
   \<and> \<not> sublist (toString (originalWattage documented_example))
        (resultExplanation (handleSubmit (page_of documented_example initial_page)))
   \<and> \<not> sublist (toString (targetWattage documented_example))
        (resultExplanation (handleSubmit (page_of documented_example initial_page)))"
  by code_simp


end
